theory Spec2Isabelle
  imports Complex_Main "HOL-Library.Log_Nat"
begin

section \<open>Numbers and dates\<close>

text \<open>
  A JavaScript Number is a binary64 floating-point number. A finite one is modelled as
  the rational it stands for, and every arithmetic operation of the source as the exact
  operation followed by the rounding \<open>fl\<close> to the nearest binary64 number, a tie going
  to the even significand. Comparisons and \<open>Math.round\<close> are exact on such values.
  The exponent range is cut off below, where the subnormal numbers are, and not above:
  an operation that the code would round to an infinity has a finite result here. No
  Number of these computations comes near \<open>2 ^ 1024\<close>: each is a count of documents or
  of subtasks, a progress that the schema keeps between 0 and 100, or a sum of such.
  Counts are natural numbers, and a value that \<open>Math.round\<close> produced is an integer.
  A \<open>Date\<close> is the number of milliseconds since the epoch; a field that holds no date
  is \<open>None\<close>, and a \<open>Date\<close> object is always truthy.
\<close>

type_synonym date = nat

text \<open>The nearest integer, a tie going to the even one.\<close>

definition round_even :: "rat \<Rightarrow> int" where
  "round_even y =
     (let f = \<lfloor>y\<rfloor>; r = y - of_int f in
      if r < 1 / 2 then f
      else if 1 / 2 < r then f + 1
      else if even f then f else f + 1)"

text \<open>For a positive \<open>x\<close>, the exponent \<open>e\<close> with \<open>2 powi e \<le> x < 2 powi (e + 1)\<close>.\<close>

definition expo :: "rat \<Rightarrow> int" where
  "expo x = (if 1 \<le> x then bitlen \<lfloor>x\<rfloor> - 1 else - bitlen (\<lceil>1 / x\<rceil> - 1))"

text \<open>
  Rounding to binary64: a significand of 53 bits, so the numbers next to \<open>x\<close> are the
  multiples of \<open>2 powi (e - 52)\<close>, where \<open>e\<close> is the exponent of \<open>x\<close> and at least -1022.
\<close>

definition fl :: "rat \<Rightarrow> rat" where
  "fl x =
     (if x = 0 then 0
      else let e = max (expo \<bar>x\<bar>) (- 1022); u = 2 powi (e - 52)
           in of_int (round_even (x / u)) * u)"

text \<open>\<open>a + b\<close> and \<open>a * b\<close>.\<close>

definition js_add :: "rat \<Rightarrow> rat \<Rightarrow> rat" where
  "js_add a b = fl (a + b)"

definition js_mul :: "rat \<Rightarrow> rat \<Rightarrow> rat" where
  "js_mul a b = fl (a * b)"

text \<open>
  \<open>a / b\<close>: with a zero divisor JavaScript yields \<open>NaN\<close> or an infinity and does not
  raise. \<open>None\<close> stands for such a non-finite value.
\<close>

definition js_div :: "rat \<Rightarrow> rat \<Rightarrow> rat option" where
  "js_div a b = (if b = 0 then None else Some (fl (a / b)))"

text \<open>\<open>Math.round\<close>: the nearest integer, a tie going towards plus infinity.\<close>

definition Math_round :: "rat \<Rightarrow> int" where
  "Math_round x = \<lfloor>x + 1 / 2\<rfloor>"


section \<open>Data model\<close>

subsection \<open>Task (models/Task.js)\<close>

datatype task_status = Todo | InProgress | InReview | Completed | Cancelled

record subtask =
  title :: string
  isCompleted :: bool

record task_doc =
  task_id :: string
  project :: string
  creator :: string
  status :: task_status
  progress :: rat
  subtasks :: "subtask list"
  isArchived :: bool
  completedAt :: "date option"
  startedAt :: "date option"

subsection \<open>Project (models/Project.js)\<close>

datatype member_role = Owner | Admin | Member | Viewer

datatype project_status = Planning | Active | OnHold | ProjCompleted | Archived

record member =
  user :: string
  role :: member_role
  joinedAt :: date

record project_doc =
  owner :: string
  members :: "member list"
  proj_status :: project_status
  proj_progress :: rat

subsection \<open>The document store\<close>

text \<open>
  The collections the hooks read and write: the tasks in insertion order and the
  projects by \<open>_id\<close>. Store calls are modelled as total functions on this value: the
  \<open>catch\<close> branches that only log a driver failure are outside the model, and so is
  the schema validation that Mongoose runs by itself.
\<close>

record db =
  tasks :: "task_doc list"
  projects :: "string \<Rightarrow> project_doc option"

text \<open>What \<open>save()\<close> writes: the document replaces the stored one with its \<open>_id\<close>, or is appended.\<close>

fun store_task :: "task_doc \<Rightarrow> task_doc list \<Rightarrow> task_doc list" where
  "store_task doc [] = [doc]"
| "store_task doc (x # xs) =
     (if task_id x = task_id doc then doc # xs else x # store_task doc xs)"

text \<open>\<open>Task.find({ project: pid })\<close>: every stored task of the project, archived or not.\<close>

definition find_by_project :: "string \<Rightarrow> db \<Rightarrow> task_doc list" where
  "find_by_project pid d = filter (\<lambda>t. project t = pid) (tasks d)"

text \<open>\<open>Project.findByIdAndUpdate(pid, { progress: v })\<close>: no save hook runs; an absent project is left absent.\<close>

definition findByIdAndUpdate_progress :: "string \<Rightarrow> rat \<Rightarrow> db \<Rightarrow> db" where
  "findByIdAndUpdate_progress pid v d =
     (case projects d pid of
        None \<Rightarrow> d
      | Some p \<Rightarrow> d\<lparr>projects := (projects d)(pid \<mapsto> p\<lparr>proj_progress := v\<rparr>)\<rparr>)"

section \<open>Task rules (models/Task.js)\<close>

text \<open>The virtual \<open>completedSubtasksCount\<close>.\<close>

definition completedSubtasksCount :: "task_doc \<Rightarrow> nat" where
  "completedSubtasksCount t = length (filter (\<lambda>s. isCompleted s) (subtasks t))"

text \<open>The virtual \<open>subtasksProgress\<close>; \<open>None\<close> if the quotient were not finite.\<close>

definition subtasksProgress :: "task_doc \<Rightarrow> int option" where
  "subtasksProgress t =
     (if length (subtasks t) = 0 then Some 100
      else map_option (\<lambda>q. Math_round (js_mul q 100))
             (js_div (of_nat (completedSubtasksCount t)) (of_nat (length (subtasks t)))))"

text \<open>
  \<open>TaskSchema.pre("save")\<close>. \<open>now\<close> is the value of \<open>new Date()\<close> and \<open>statusModified\<close>
  the answer of Mongoose's \<open>this.isModified("status")\<close>.
\<close>

definition task_pre_save :: "date \<Rightarrow> bool \<Rightarrow> task_doc \<Rightarrow> task_doc" where
  "task_pre_save now statusModified t =
     (let t1 =
        (if statusModified then
           (if status t = Completed \<and> completedAt t = None
              then t\<lparr>completedAt := Some now, progress := 100\<rparr>
            else if status t = InProgress \<and> startedAt t = None
              then t\<lparr>startedAt := Some now\<rparr>
            else t)
         else t)
      in if status t1 = Completed then t1\<lparr>progress := 100\<rparr>
         else if status t1 = Todo then t1\<lparr>progress := 0\<rparr>
         else t1)"

text \<open>
  \<open>TaskSchema.post("save")\<close>: the project's progress becomes the rounded average of the
  progress of the tasks found for the project. \<open>reduce\<close> is the left fold.
\<close>

definition task_post_save :: "task_doc \<Rightarrow> db \<Rightarrow> db option" where
  "task_post_save doc d =
     (let ts = find_by_project (project doc) d in
      if length ts > 0 then
        (let totalProgress = foldl (\<lambda>sum task. js_add sum (progress task)) 0 ts in
         case js_div totalProgress (of_nat (length ts)) of
           None \<Rightarrow> None
         | Some q \<Rightarrow>
             Some (findByIdAndUpdate_progress (project doc) (of_int (Math_round q)) d))
      else Some d)"

text \<open>\<open>doc.save()\<close>: the pre hook, the write, the post hook. The saved document and the store.\<close>

definition task_save :: "date \<Rightarrow> bool \<Rightarrow> task_doc \<Rightarrow> db \<Rightarrow> (task_doc \<times> db) option" where
  "task_save now statusModified t d =
     (let doc = task_pre_save now statusModified t in
      map_option (\<lambda>d'. (doc, d')) (task_post_save doc (d\<lparr>tasks := store_task doc (tasks d)\<rparr>)))"

text \<open>\<open>TaskSchema.methods.updateProgressFromSubtasks\<close>.\<close>

definition updateProgressFromSubtasks ::
  "date \<Rightarrow> bool \<Rightarrow> task_doc \<Rightarrow> db \<Rightarrow> (task_doc \<times> db) option" where
  "updateProgressFromSubtasks now statusModified t d =
     (if length (subtasks t) > 0 then
        (case subtasksProgress t of
           None \<Rightarrow> None
         | Some v \<Rightarrow> task_save now statusModified (t\<lparr>progress := of_int v\<rparr>) d)
      else task_save now statusModified t d)"

text \<open>
  What happens to a task document over time. \<open>Save s m now\<close>: the status is assigned
  \<open>s\<close> and the document is saved at time \<open>now\<close>, Mongoose answering \<open>m\<close> to
  \<open>isModified("status")\<close>. \<open>Update s v\<close>: the update route's
  \<open>Task.findByIdAndUpdate\<close>, which writes the fields it is given (here the status and
  the progress; \<open>completedAt\<close> and \<open>startedAt\<close> are not among the allowed fields) and
  runs no save hook.
\<close>

datatype task_event = Save task_status bool date | Update "task_status option" "rat option"

fun apply_event :: "task_event \<Rightarrow> task_doc \<Rightarrow> task_doc" where
  "apply_event (Save s m now) t = task_pre_save now m (t\<lparr>status := s\<rparr>)"
| "apply_event (Update s v) t =
     t\<lparr>status := (case s of None \<Rightarrow> status t | Some s' \<Rightarrow> s'),
       progress := (case v of None \<Rightarrow> progress t | Some v' \<Rightarrow> v')\<rparr>"

fun run_events :: "task_event list \<Rightarrow> task_doc \<Rightarrow> task_doc" where
  "run_events [] t = t"
| "run_events (e # es) t = run_events es (apply_event e t)"

section \<open>Dashboard statistics (GET /api/dashboard/stats)\<close>

record metrics =
  completionRate :: int
  overdueRate :: int
  productivity :: int

text \<open>The metrics of the response, from the three counts; \<open>None\<close> if a rate were not finite.\<close>

definition stats_metrics :: "nat \<Rightarrow> nat \<Rightarrow> nat \<Rightarrow> metrics option" where
  "stats_metrics totalTasks completedTasks overdueTasks =
     (case (if totalTasks > 0
            then map_option (\<lambda>q. Math_round (js_mul q 100))
                   (js_div (of_nat completedTasks) (of_nat totalTasks))
            else Some 0) of
        None \<Rightarrow> None
      | Some cRate \<Rightarrow>
          (case (if totalTasks > 0
                 then map_option (\<lambda>q. Math_round (js_mul q 100))
                        (js_div (of_nat overdueTasks) (of_nat totalTasks))
                 else Some 0) of
             None \<Rightarrow> None
           | Some oRate \<Rightarrow>
               Some \<lparr>completionRate = cRate, overdueRate = oRate,
                     productivity = max 0 (cRate - oRate)\<rparr>))"

section \<open>Project rules (models/Project.js)\<close>

datatype model_error = AlreadyMember

text \<open>
  \<open>ProjectSchema.pre("save")\<close>: the progress is brought into the range, then the
  status follows the progress. Mongoose runs the schema validation of a save before
  this hook and rejects a progress outside the range there; that validation is outside
  the model, which has the hook alone.
\<close>

definition project_pre_save :: "project_doc \<Rightarrow> project_doc" where
  "project_pre_save p =
     (let p1 = (if proj_progress p < 0 then p\<lparr>proj_progress := 0\<rparr> else p);
          p2 = (if proj_progress p1 > 100 then p1\<lparr>proj_progress := 100\<rparr> else p1)
      in if proj_progress p2 = 100 \<and> proj_status p2 \<noteq> ProjCompleted
           then p2\<lparr>proj_status := ProjCompleted\<rparr>
         else if proj_progress p2 > 0 \<and> proj_status p2 = Planning
           then p2\<lparr>proj_status := Active\<rparr>
         else p2)"

text \<open>
  \<open>ProjectSchema.methods.addMember\<close>: the thrown \<open>Error\<close> is the left summand, the
  saved document the right one. User ids are compared as strings.
\<close>

definition addMember :: "date \<Rightarrow> string \<Rightarrow> member_role \<Rightarrow> project_doc \<Rightarrow> model_error + project_doc" where
  "addMember now userId r p =
     (case find (\<lambda>m. user m = userId) (members p) of
        Some existingMember \<Rightarrow> Inl AlreadyMember
      | None \<Rightarrow>
          Inr (project_pre_save
                 (p\<lparr>members := members p @ [\<lparr>user = userId, role = r, joinedAt = now\<rparr>]\<rparr>)))"

text \<open>\<open>ProjectSchema.methods.removeMember\<close>.\<close>

definition removeMember :: "string \<Rightarrow> project_doc \<Rightarrow> project_doc" where
  "removeMember userId p =
     project_pre_save (p\<lparr>members := filter (\<lambda>m. user m \<noteq> userId) (members p)\<rparr>)"

text \<open>\<open>ProjectSchema.methods.isMember\<close>.\<close>

definition isMember :: "project_doc \<Rightarrow> string \<Rightarrow> bool" where
  "isMember p userId \<longleftrightarrow> list_ex (\<lambda>m. user m = userId) (members p) \<or> owner p = userId"

text \<open>\<open>ProjectSchema.methods.getUserRole\<close>; \<open>null\<close> is \<open>None\<close>.\<close>

definition getUserRole :: "project_doc \<Rightarrow> string \<Rightarrow> member_role option" where
  "getUserRole p userId =
     (if owner p = userId then Some Owner
      else map_option role (find (\<lambda>m. user m = userId) (members p)))"

section \<open>Route handlers\<close>

text \<open>
  What a handler answers: the HTTP status and which of the handler's responses it is.
  \<open>findById\<close> with a well-formed id finds a document or none; with a malformed id it
  throws a cast error, which the handler's \<open>catch\<close> receives.
\<close>

datatype 'a lookup = Found 'a | Absent | BadId

datatype response =
    ValidationFailed
  | NotFound
  | NotAMember
  | RoleDenied
  | AssigneeNotMember
  | CannotRemoveOwner
  | ServerError
  | Success

fun status_code :: "response \<Rightarrow> nat" where
  "status_code ValidationFailed = 400"
| "status_code NotFound = 404"
| "status_code NotAMember = 403"
| "status_code RoleDenied = 403"
| "status_code AssigneeNotMember = 400"
| "status_code CannotRemoveOwner = 400"
| "status_code ServerError = 500"
| "status_code Success = 200"

text \<open>
  \<open>router.put("/:id")\<close> of routes/tasks.js. \<open>valid\<close> is whether express-validator found no
  error, \<open>taskQ\<close> the outcome of \<open>Task.findById(req.params.id)\<close>, \<open>userId\<close> is
  \<open>req.userId\<close>, \<open>assignee\<close> the field of the body if it is there (the empty string is
  falsy), and \<open>stored\<close> whether \<open>Task.findByIdAndUpdate\<close> with \<open>runValidators\<close> accepted
  the update.
\<close>

definition put_task :: "bool \<Rightarrow> task_doc lookup \<Rightarrow> db \<Rightarrow> string \<Rightarrow> string option \<Rightarrow> bool \<Rightarrow> response" where
  "put_task valid taskQ d userId assignee stored =
     (if \<not> valid then ValidationFailed
      else case taskQ of
        BadId \<Rightarrow> NotFound
      | Absent \<Rightarrow> NotFound
      | Found task \<Rightarrow>
          (case projects d (project task) of
             None \<Rightarrow> NotAMember
           | Some p \<Rightarrow>
               if \<not> isMember p userId then NotAMember
               else if (case assignee of
                          None \<Rightarrow> False
                        | Some a \<Rightarrow> a \<noteq> [] \<and> \<not> isMember p a)
                 then AssigneeNotMember
               else if stored then Success
               else ServerError))"

text \<open>
  \<open>router.delete("/:id")\<close> of routes/tasks.js, the handler the update is compared with.
\<close>

definition delete_task :: "task_doc lookup \<Rightarrow> db \<Rightarrow> string \<Rightarrow> response" where
  "delete_task taskQ d userId =
     (case taskQ of
        BadId \<Rightarrow> NotFound
      | Absent \<Rightarrow> NotFound
      | Found task \<Rightarrow>
          (case projects d (project task) of
             None \<Rightarrow> NotAMember
           | Some p \<Rightarrow>
               if \<not> isMember p userId then NotAMember
               else
                 (let userRole = getUserRole p userId;
                      isCreator = (creator task = userId)
                  in if \<not> isCreator \<and> userRole \<noteq> Some Owner \<and> userRole \<noteq> Some Admin
                       then RoleDenied
                     else Success)))"

text \<open>
  \<open>router.delete("/:id/members/:userId")\<close> of routes/projects.js: the response and the
  project as it is stored afterwards. \<open>target\<close> is \<open>req.params.userId\<close>. This handler's
  \<open>catch\<close> answers 500 whatever was thrown.
\<close>

definition delete_member :: "project_doc lookup \<Rightarrow> string \<Rightarrow> string \<Rightarrow> response \<times> project_doc option" where
  "delete_member projQ userId target =
     (case projQ of
        BadId \<Rightarrow> (ServerError, None)
      | Absent \<Rightarrow> (NotFound, None)
      | Found p \<Rightarrow>
          (let userRole = getUserRole p userId;
               isRemovingSelf = (target = userId)
           in if \<not> isRemovingSelf
                 \<and> (userRole = None \<or> (userRole \<noteq> Some Owner \<and> userRole \<noteq> Some Admin))
                then (RoleDenied, Some p)
              else if owner p = target then (CannotRemoveOwner, Some p)
              else (Success, Some (removeMember target p))))"

section \<open>Auxiliary facts\<close>

subsection \<open>Rounding to binary64\<close>

lemma round_even_err: "\<bar>of_int (round_even y) - y\<bar> \<le> 1 / 2"
  unfolding round_even_def Let_def by (auto simp: abs_if) linarith+

lemma round_even_int [simp]: "round_even (of_int k) = k"
  by (simp add: round_even_def)


lemma pow2_le_cast: "(2::int) ^ n \<le> a \<Longrightarrow> (2::rat) ^ n \<le> of_int a"
  using of_int_le_iff [of "2 ^ n" a, where ?'a = rat] by simp

lemma cast_le_pow2: "a \<le> (2::int) ^ n \<Longrightarrow> (of_int a :: rat) \<le> 2 ^ n"
  using of_int_le_iff [of a "2 ^ n", where ?'a = rat] by simp

lemma expo_lower:
  assumes "0 < x"
  shows "2 powi (expo x) \<le> x"
proof (cases "1 \<le> x")
  case True
  then have pos: "0 < \<lfloor>x\<rfloor>" by linarith
  from bitlen_bounds [OF pos] have "(2::int) ^ nat (bitlen \<lfloor>x\<rfloor> - 1) \<le> \<lfloor>x\<rfloor>" by simp
  then have "(2::rat) ^ nat (bitlen \<lfloor>x\<rfloor> - 1) \<le> of_int \<lfloor>x\<rfloor>"
    by (rule pow2_le_cast)
  also have "\<dots> \<le> x" by simp
  finally have "(2::rat) ^ nat (bitlen \<lfloor>x\<rfloor> - 1) \<le> x" .
  moreover have "0 \<le> bitlen \<lfloor>x\<rfloor> - 1"
    using pos by (simp add: bitlen_alt_def)
  ultimately show ?thesis
    using True by (simp add: expo_def power_int_def)
next
  case False
  then have x1: "x < 1" by simp
  let ?b = "bitlen (\<lceil>1 / x\<rceil> - 1)"
  from assms x1 have "1 < 1 / x" by simp
  then have pos: "0 < \<lceil>1 / x\<rceil> - 1" by linarith
  from bitlen_bounds [OF pos] have "\<lceil>1 / x\<rceil> - 1 < (2::int) ^ nat ?b" by simp
  then have "\<lceil>1 / x\<rceil> \<le> (2::int) ^ nat ?b" by simp
  then have "(of_int \<lceil>1 / x\<rceil> :: rat) \<le> 2 ^ nat ?b"
    by (rule cast_le_pow2)
  moreover have "1 / x \<le> of_int \<lceil>1 / x\<rceil>" by simp
  ultimately have "1 / x \<le> (2::rat) ^ nat ?b" by (rule order_trans [rotated])
  then have "1 / (2::rat) ^ nat ?b \<le> x"
    using assms by (simp add: field_simps)
  moreover have "1 \<le> ?b" using pos by (simp add: bitlen_alt_def)
  ultimately show ?thesis
    using False by (simp add: expo_def power_int_def field_simps)
qed

lemma expo_upper:
  assumes "0 < x"
  shows "x < 2 powi (expo x + 1)"
proof (cases "1 \<le> x")
  case True
  then have pos: "0 < \<lfloor>x\<rfloor>" by linarith
  from bitlen_bounds [OF pos] have "\<lfloor>x\<rfloor> < (2::int) ^ nat (bitlen \<lfloor>x\<rfloor>)" by simp
  then have "\<lfloor>x\<rfloor> + 1 \<le> (2::int) ^ nat (bitlen \<lfloor>x\<rfloor>)" by simp
  then have "(of_int (\<lfloor>x\<rfloor> + 1) :: rat) \<le> 2 ^ nat (bitlen \<lfloor>x\<rfloor>)"
    by (rule cast_le_pow2)
  moreover have "x < of_int (\<lfloor>x\<rfloor> + 1)" by simp linarith
  ultimately have "x < (2::rat) ^ nat (bitlen \<lfloor>x\<rfloor>)" by simp
  moreover have "0 \<le> bitlen \<lfloor>x\<rfloor>" by (rule bitlen_nonneg)
  ultimately show ?thesis
    using True by (simp add: expo_def power_int_def)
next
  case False
  then have x1: "x < 1" by simp
  let ?b = "bitlen (\<lceil>1 / x\<rceil> - 1)"
  from assms x1 have "1 < 1 / x" by simp
  then have pos: "0 < \<lceil>1 / x\<rceil> - 1" by linarith
  then have b1: "1 \<le> ?b" by (simp add: bitlen_alt_def)
  from bitlen_bounds [OF pos] have "(2::int) ^ nat (?b - 1) \<le> \<lceil>1 / x\<rceil> - 1" by simp
  then have "(2::rat) ^ nat (?b - 1) \<le> of_int (\<lceil>1 / x\<rceil> - 1)"
    by (rule pow2_le_cast)
  moreover have "of_int (\<lceil>1 / x\<rceil> - 1) < 1 / x" by simp linarith
  ultimately have "(2::rat) ^ nat (?b - 1) < 1 / x" by simp
  then have "x < 1 / (2::rat) ^ nat (?b - 1)"
    using assms by (simp add: field_simps)
  moreover have "- ?b + 1 \<le> 0" using b1 by simp
  moreover have "nat (- (- ?b + 1)) = nat (?b - 1)" by simp
  ultimately show ?thesis
    using False b1 by (simp add: expo_def power_int_def field_simps)
qed

lemma expo_less:
  assumes "0 < x" and "x < 2 powi k"
  shows "expo x < k"
proof (rule ccontr)
  assume "\<not> expo x < k"
  then have "k \<le> expo x" by simp
  then have "(2::rat) powi k \<le> 2 powi expo x"
    by (intro power_int_increasing) simp_all
  with expo_lower [OF assms(1)] assms(2) show False by simp
qed

lemma fl_error:
  "\<bar>fl x - x\<bar> \<le> 2 powi (max (expo \<bar>x\<bar>) (- 1022) - 53)"
proof (cases "x = 0")
  case True
  then show ?thesis by (simp add: fl_def)
next
  case False
  let ?e = "max (expo \<bar>x\<bar>) (- 1022)"
  let ?u = "(2::rat) powi (?e - 52)"
  have u: "0 < ?u" by simp
  have "fl x - x = (of_int (round_even (x / ?u)) - x / ?u) * ?u"
    using False u by (simp add: fl_def Let_def algebra_simps)
  then have "\<bar>fl x - x\<bar> = \<bar>of_int (round_even (x / ?u)) - x / ?u\<bar> * ?u"
    using u by (simp add: abs_mult)
  also have "\<dots> \<le> (1 / 2) * ?u"
    using round_even_err [of "x / ?u"] u by (intro mult_right_mono) simp_all
  also have "(1 / 2) * ?u = 2 powi (?e - 53)"
    by (simp add: power_int_diff)
  finally show ?thesis .
qed

lemma fl_error_below:
  assumes "\<bar>x\<bar> < 2 powi k" and "- 1022 < k"
  shows "\<bar>fl x - x\<bar> \<le> 2 powi (k - 54)"
proof (cases "x = 0")
  case True
  then show ?thesis by (simp add: fl_def)
next
  case False
  then have "expo \<bar>x\<bar> < k"
    using assms(1) by (intro expo_less) simp_all
  with assms(2) have "max (expo \<bar>x\<bar>) (- 1022) - 53 \<le> k - 54" by simp
  then have "(2::rat) powi (max (expo \<bar>x\<bar>) (- 1022) - 53) \<le> 2 powi (k - 54)"
    by (intro power_int_increasing) simp_all
  with fl_error [of x] show ?thesis by simp
qed

lemma fl_exact:
  assumes "\<bar>k\<bar> < 2 ^ 53" and "- 1074 \<le> i"
  shows "fl (of_int k * 2 powi i) = of_int k * 2 powi i"
proof (cases "k = 0")
  case True
  then show ?thesis by (simp add: fl_def)
next
  case False
  let ?x = "of_int k * (2::rat) powi i"
  let ?e = "max (expo \<bar>?x\<bar>) (- 1022)"
  have x0: "?x \<noteq> 0" using False by simp
  have "\<bar>?x\<bar> = of_int \<bar>k\<bar> * 2 powi i"
    by (simp add: abs_mult)
  also have "\<dots> < 2 ^ 53 * 2 powi i"
  proof -
    have "(of_int \<bar>k\<bar> :: rat) < of_int (2 ^ 53)"
      using assms(1) by (simp only: of_int_less_iff)
    then show ?thesis by (intro mult_strict_right_mono) simp_all
  qed
  also have "\<dots> = 2 powi (53 + i)"
    by (simp add: power_int_add)
  finally have "expo \<bar>?x\<bar> < 53 + i"
    using x0 by (intro expo_less) simp_all
  with assms(2) have d: "0 \<le> i - (?e - 52)" by simp
  have "?x / 2 powi (?e - 52) = of_int k * 2 powi (i - (?e - 52))"
    by (simp add: power_int_diff)
  also have "\<dots> = of_int (k * 2 ^ nat (i - (?e - 52)))"
    using d by (simp add: power_int_def)
  finally have "round_even (?x / 2 powi (?e - 52)) = k * 2 ^ nat (i - (?e - 52))"
    by (simp only: round_even_int)
  then have "fl ?x = of_int (k * 2 ^ nat (i - (?e - 52))) * 2 powi (?e - 52)"
    using x0 by (simp add: fl_def Let_def)
  also have "\<dots> = of_int k * (2 powi (i - (?e - 52)) * 2 powi (?e - 52))"
    using d by (simp add: power_int_def)
  also have "2 powi (i - (?e - 52)) * 2 powi (?e - 52) = (2::rat) powi i"
    by (simp add: power_int_diff)
  finally show ?thesis .
qed

lemma fl_of_int: "\<bar>k\<bar> < 2 ^ 53 \<Longrightarrow> fl (of_int k) = of_int k"
  using fl_exact [of k 0] by simp

lemma fl_half_int: "\<bar>k\<bar> < 2 ^ 53 \<Longrightarrow> fl (of_int k / 2) = of_int k / 2"
  using fl_exact [of k "- 1"] by (simp add: power_int_minus field_simps)



lemma fl_zero [simp]: "fl 0 = 0"
  by (simp add: fl_def)

lemma fl_one [simp]: "fl 1 = 1"
  using fl_of_int [of 1] by simp

lemma fl_numeral [simp]:
  "(numeral n :: int) < 9007199254740992 \<Longrightarrow> fl (numeral n) = numeral n"
  using fl_of_int [of "numeral n"] by simp




lemma frac_half_less:
  fixes a n k :: int
  assumes "0 < n"
  shows "(of_int a / of_int n + 1 / 2 < (of_int k :: rat)) \<longleftrightarrow> 2 * a + n < k * (2 * n)"
proof -
  have "(of_int a / of_int n + 1 / 2 < (of_int k :: rat))
      \<longleftrightarrow> (of_int (2 * a + n) :: rat) < of_int (k * (2 * n))"
    using assms by (simp add: field_simps)
  then show ?thesis by (simp only: of_int_less_iff)
qed

lemma less_frac_half:
  fixes a n k :: int
  assumes "0 < n"
  shows "((of_int k :: rat) < of_int a / of_int n + 1 / 2) \<longleftrightarrow> k * (2 * n) < 2 * a + n"
proof -
  have "((of_int k :: rat) < of_int a / of_int n + 1 / 2)
      \<longleftrightarrow> (of_int (k * (2 * n)) :: rat) < of_int (2 * a + n)"
    using assms by (simp add: field_simps)
  then show ?thesis by (simp only: of_int_less_iff)
qed

lemma frac_half_gap_le:
  fixes a n k :: int
  assumes "0 < n"
  shows "(of_int a / of_int n + 1 / 2 + 1 / (2 * of_int n) \<le> (of_int k :: rat))
           \<longleftrightarrow> 2 * a + n + 1 \<le> k * (2 * n)"
proof -
  have "(of_int a / of_int n + 1 / 2 + 1 / (2 * of_int n) \<le> (of_int k :: rat))
      \<longleftrightarrow> (of_int (2 * a + n + 1) :: rat) \<le> of_int (k * (2 * n))"
    using assms by (simp add: field_simps)
  then show ?thesis by (simp only: of_int_le_iff)
qed

lemma le_frac_half_gap:
  fixes a n k :: int
  assumes "0 < n"
  shows "((of_int k :: rat) + 1 / (2 * of_int n) \<le> of_int a / of_int n + 1 / 2)
           \<longleftrightarrow> k * (2 * n) + 1 \<le> 2 * a + n"
proof -
  let ?D = "2 * of_int n :: rat"
  have D: "0 < ?D" using assms by simp
  have l: "(of_int k :: rat) + 1 / ?D = of_int (k * (2 * n) + 1) / ?D"
    using assms by (simp add: field_simps)
  have r: "of_int a / of_int n + 1 / 2 = of_int (2 * a + n) / ?D"
    using assms by (simp add: field_simps)
  have "(of_int (k * (2 * n) + 1) / ?D \<le> of_int (2 * a + n) / ?D)
      \<longleftrightarrow> (of_int (k * (2 * n) + 1) :: rat) \<le> of_int (2 * a + n)"
    using D by (simp only: divide_le_cancel) auto
  then show ?thesis by (simp only: l r of_int_le_iff)
qed


text \<open>
  A value within \<open>1 / (2 n)\<close> of a fraction \<open>a / n\<close> rounds as the fraction does, or one
  below it; the latter only when the fraction lies halfway between two integers.
\<close>

lemma round_near:
  fixes a n :: int and p :: rat
  assumes n: "0 < n" and near: "\<bar>p - of_int a / of_int n\<bar> < 1 / (2 * of_int n)"
  shows "((of_int a / of_int n + 1 / 2 :: rat) \<noteq> of_int \<lfloor>of_int a / of_int n + (1 / 2 :: rat)\<rfloor>
            \<longrightarrow> \<lfloor>p + 1 / 2\<rfloor> = \<lfloor>of_int a / of_int n + (1 / 2 :: rat)\<rfloor>)
       \<and> (\<lfloor>p + 1 / 2\<rfloor> = \<lfloor>of_int a / of_int n + (1 / 2 :: rat)\<rfloor>
            \<or> \<lfloor>p + 1 / 2\<rfloor> = \<lfloor>of_int a / of_int n + (1 / 2 :: rat)\<rfloor> - 1)"
proof -
  let ?x = "of_int a / of_int n :: rat"
  let ?g = "1 / (2 * of_int n) :: rat"
  define j where "j = \<lfloor>?x + 1 / 2\<rfloor>"
  have lo: "of_int j \<le> ?x + 1 / 2" and hi: "?x + 1 / 2 < of_int (j + 1)"
    unfolding j_def by linarith+
  have g: "0 < ?g" "?g \<le> 1 / 2"
  proof -
    have "(1 :: rat) \<le> of_int n" using n by simp
    then show "0 < ?g" "?g \<le> 1 / 2" by (simp_all add: field_simps)
  qed
  have pl: "?x - ?g < p" and pu: "p < ?x + ?g"
    using near by (simp_all add: abs_less_iff)
  from hi have "2 * a + n < (j + 1) * (2 * n)"
    by (simp only: frac_half_less [OF n])
  then have "2 * a + n + 1 \<le> (j + 1) * (2 * n)" by simp
  then have up: "?x + 1 / 2 + ?g \<le> of_int (j + 1)"
    by (simp only: frac_half_gap_le [OF n])
  have p_hi: "p + 1 / 2 < of_int (j + 1)"
    using pu up by linarith
  have jm: "(of_int (j - 1) :: rat) = of_int j - 1" by simp
  have p_lo: "of_int (j - 1) \<le> p + 1 / 2"
    unfolding jm using pl lo g(2) by linarith
  have two: "\<lfloor>p + 1 / 2\<rfloor> = j \<or> \<lfloor>p + 1 / 2\<rfloor> = j - 1"
  proof -
    have "\<lfloor>p + 1 / 2\<rfloor> < j + 1" using p_hi by (simp only: floor_less_iff)
    moreover have "j - 1 \<le> \<lfloor>p + 1 / 2\<rfloor>" using p_lo by (simp only: le_floor_iff)
    ultimately show ?thesis by linarith
  qed
  have one: "\<lfloor>p + 1 / 2\<rfloor> = j" if nt: "?x + 1 / 2 \<noteq> of_int j"
  proof -
    from lo nt have "of_int j < ?x + 1 / 2" by simp
    then have "j * (2 * n) < 2 * a + n"
      by (simp only: less_frac_half [OF n])
    then have "j * (2 * n) + 1 \<le> 2 * a + n" by simp
    then have "of_int j + ?g \<le> ?x + 1 / 2"
      by (simp only: le_frac_half_gap [OF n])
    then have "of_int j \<le> p + 1 / 2"
      using pl by linarith
    then have "j \<le> \<lfloor>p + 1 / 2\<rfloor>" by (simp only: le_floor_iff)
    with two show ?thesis by linarith
  qed
  from one two show ?thesis unfolding j_def by blast
qed







text \<open>Integer progress values from 0 to 100 add up without rounding.\<close>

lemma foldl_js_add_exact:
  assumes "\<forall>t\<in>set ts. \<exists>k. progress t = of_int k \<and> 0 \<le> k \<and> k \<le> 100"
    and "0 \<le> a" and "a + 100 * int (length ts) < 2 ^ 53"
  shows "\<exists>s. foldl (\<lambda>sum task. js_add sum (progress task)) (of_int a) ts = of_int s
            \<and> (of_int s :: rat) = of_int a + sum_list (map progress ts)
            \<and> a \<le> s \<and> s \<le> a + 100 * int (length ts)"
  using assms
proof (induction ts arbitrary: a)
  case Nil
  then show ?case by simp
next
  case (Cons t ts)
  from Cons.prems(1) obtain k where k: "progress t = of_int k" "0 \<le> k" "k \<le> 100"
    by auto
  have b: "\<bar>a + k\<bar> < 2 ^ 53"
    using Cons.prems(2,3) k by simp
  have step: "js_add (of_int a) (progress t) = of_int (a + k)"
    using fl_of_int [OF b] by (simp add: js_add_def k)
  have "\<exists>s. foldl (\<lambda>sum task. js_add sum (progress task)) (of_int (a + k)) ts = of_int s
            \<and> (of_int s :: rat) = of_int (a + k) + sum_list (map progress ts)
            \<and> a + k \<le> s \<and> s \<le> a + k + 100 * int (length ts)"
    using Cons.prems k by (intro Cons.IH) simp_all
  then obtain s where
    s: "foldl (\<lambda>sum task. js_add sum (progress task)) (of_int (a + k)) ts = of_int s"
       "(of_int s :: rat) = of_int (a + k) + sum_list (map progress ts)"
       "a + k \<le> s" "s \<le> a + k + 100 * int (length ts)"
    by blast
  have "foldl (\<lambda>sum task. js_add sum (progress task)) (of_int a) (t # ts) = of_int s"
    using s(1) by (simp add: step)
  moreover have "(of_int s :: rat) = of_int a + sum_list (map progress (t # ts))"
    using s(2) by (simp add: k)
  moreover have "a \<le> s" "s \<le> a + 100 * int (length (t # ts))"
    using s(3,4) k by simp_all
  ultimately show ?case by blast
qed

text \<open>So their mean, divided and rounded in binary64, is the mean rounded to the nearest integer.\<close>

lemma mean_round:
  assumes ints: "\<forall>t\<in>set ts. \<exists>k. progress t = of_int k \<and> 0 \<le> k \<and> k \<le> 100"
    and ne: "ts \<noteq> []" and len: "length ts < 2 ^ 32"
  shows "Math_round (fl (foldl (\<lambda>sum task. js_add sum (progress task)) 0 ts
                          / of_nat (length ts)))
         = round (sum_list (map progress ts) / of_nat (length ts))"
proof -
  let ?n = "int (length ts)"
  have n0: "0 < ?n" using ne by simp
  have nb: "?n < 4294967296" using len by simp
  have "(0::int) + 100 * ?n < 2 ^ 53" using nb by simp
  from foldl_js_add_exact [OF ints _ this]
  obtain s where
    s: "foldl (\<lambda>sum task. js_add sum (progress task)) 0 ts = of_int s"
       "(of_int s :: rat) = sum_list (map progress ts)"
       "0 \<le> s" "s \<le> 100 * ?n"
    by auto
  define x :: rat where "x = of_int s / of_int ?n"
  have x: "0 \<le> x" "x \<le> 100"
  proof -
    have "(of_int s :: rat) \<le> of_int (100 * ?n)" using s(4) by (simp only: of_int_le_iff)
    then show "x \<le> 100" using n0 by (simp add: x_def field_simps)
    show "0 \<le> x" using s(3) n0 by (simp add: x_def)
  qed
  then have "\<bar>x\<bar> < 2 powi 7" by simp
  then have "\<bar>fl x - x\<bar> \<le> 2 powi (7 - 54)"
    by (rule fl_error_below) simp
  moreover have "(2::rat) powi (7 - 54) = 1 / 140737488355328"
    by (simp add: power_int_minus)
  ultimately have e: "\<bar>fl x - x\<bar> \<le> 1 / 140737488355328" by simp
  have "(of_int ?n :: rat) < of_int 4294967296" using nb by (simp only: of_int_less_iff)
  then have "1 / 140737488355328 < 1 / (2 * (of_int ?n :: rat))"
    using n0 by (simp add: field_simps)
  with e have near: "\<bar>fl x - of_int s / of_int ?n\<bar> < 1 / (2 * of_int ?n)"
    by (simp add: x_def)
  have "\<lfloor>fl x + 1 / 2\<rfloor> = \<lfloor>x + 1 / 2\<rfloor>"
  proof (cases "x + 1 / 2 = of_int \<lfloor>x + 1 / 2\<rfloor>")
    case True
    define j where "j = \<lfloor>x + 1 / 2\<rfloor>"
    from True have xj: "x = of_int (2 * j - 1) / 2" by (simp add: j_def field_simps)
    have "0 \<le> j" "j \<le> 101" using x unfolding j_def by linarith+
    then have "\<bar>2 * j - 1\<bar> < 2 ^ 53" by simp
    then have "fl x = x" unfolding xj by (rule fl_half_int)
    then show ?thesis by simp
  next
    case False
    with round_near [OF n0 near] show ?thesis by (simp add: x_def)
  qed
  then show ?thesis
    by (simp add: Math_round_def round_def s(1) s(2) [symmetric] x_def)
qed

subsection \<open>Evaluating numerals\<close>

lemma floor_rat_numeral [simp]:
  "\<lfloor>numeral a / numeral b :: rat\<rfloor> = numeral a div numeral b"
  using floor_divide_of_int_eq [of "numeral a" "numeral b", where ?'a = rat] by simp

text \<open>Two tasks whose progress adds up to just below 1, and to 1 in binary64.\<close>

lemma double_sum_rounds_up:
  "js_add (js_add 0 (9007199254740991 / 9007199254740992)) (65 / 1152921504606846976) = 1"
  by code_simp

lemma half_is_double: "fl (1 / 2) = 1 / 2"
  using fl_half_int [of 1] by simp


subsection \<open>The task hooks\<close>

lemma task_pre_save_project: "project (task_pre_save now m t) = project t"
  by (simp add: task_pre_save_def Let_def)

lemma task_pre_save_status: "status (task_pre_save now m t) = status t"
  by (simp add: task_pre_save_def Let_def)

lemma task_pre_save_subtasks: "subtasks (task_pre_save now m t) = subtasks t"
  by (simp add: task_pre_save_def Let_def)

lemma task_pre_save_progress:
  "progress (task_pre_save now m t) =
     (if status t = Completed then 100 else if status t = Todo then 0 else progress t)"
  by (simp add: task_pre_save_def Let_def)

lemma store_task_mem: "doc \<in> set (store_task doc xs)"
  by (induction xs) simp_all

text \<open>The saved task is among the tasks the post hook finds, so the hook never divides by zero.\<close>

lemma stored_of_project:
  "filter (\<lambda>x. project x = project doc) (store_task doc xs) \<noteq> []"
proof -
  have "doc \<in> set (filter (\<lambda>x. project x = project doc) (store_task doc xs))"
    by (simp add: store_task_mem)
  then show ?thesis
    by (auto simp del: set_filter)
qed

lemma task_post_save_eq:
  "task_post_save doc d =
     Some (if filter (\<lambda>x. project x = project doc) (tasks d) = [] then d
           else findByIdAndUpdate_progress (project doc)
                  (of_int (Math_round (fl
                     (foldl (\<lambda>sum task. js_add sum (progress task)) 0
                        (filter (\<lambda>x. project x = project doc) (tasks d))
                      / of_nat (length (filter (\<lambda>x. project x = project doc) (tasks d))))))) d)"
  by (simp add: task_post_save_def find_by_project_def Let_def js_div_def)

lemma task_save_eq:
  "task_save now m t d =
     Some (task_pre_save now m t,
           findByIdAndUpdate_progress (project t)
             (of_int (Math_round (fl
                (foldl (\<lambda>sum task. js_add sum (progress task)) 0
                   (filter (\<lambda>x. project x = project t)
                      (store_task (task_pre_save now m t) (tasks d)))
                 / of_nat (length
                   (filter (\<lambda>x. project x = project t)
                      (store_task (task_pre_save now m t) (tasks d))))))))
             (d\<lparr>tasks := store_task (task_pre_save now m t) (tasks d)\<rparr>))"
  using stored_of_project [of "task_pre_save now m t" "tasks d"]
  by (simp add: task_save_def Let_def task_post_save_eq task_pre_save_project)

lemma task_save_fst:
  "\<exists>d'. task_save now m t d = Some (task_pre_save now m t, d')"
  by (simp add: task_save_eq)

text \<open>The post hook writes the progress only: no project changes its status, owner or members.\<close>

lemma task_save_keeps_project_status:
  assumes "task_save now m t d = Some (doc, d')"
  shows "map_option proj_status (projects d' q) = map_option proj_status (projects d q)"
  using assms
  by (auto simp: task_save_eq findByIdAndUpdate_progress_def split: option.splits)

subsection \<open>Progress from subtasks\<close>

lemma subtasksProgress_eq:
  "subtasksProgress t =
     Some (if subtasks t = [] then 100
           else Math_round (js_mul (fl (of_nat (completedSubtasksCount t)
                                        / of_nat (length (subtasks t)))) 100))"
  by (simp add: subtasksProgress_def js_div_def)

lemma updateProgressFromSubtasks_eq:
  "updateProgressFromSubtasks now m t d =
     task_save now m
       (if subtasks t = [] then t
        else t\<lparr>progress := of_int (Math_round (js_mul (fl (of_nat (completedSubtasksCount t)
                                        / of_nat (length (subtasks t)))) 100))\<rparr>) d"
  by (simp add: updateProgressFromSubtasks_def subtasksProgress_eq)

lemma updateProgressFromSubtasks_doc:
  "\<exists>doc d'. updateProgressFromSubtasks now m t d = Some (doc, d')
      \<and> status doc = status t \<and> subtasks doc = subtasks t
      \<and> progress doc =
          (if status t = Completed then 100
           else if status t = Todo then 0
           else if subtasks t = [] then progress t
           else of_int (Math_round (js_mul (fl (of_nat (completedSubtasksCount t)
                                        / of_nat (length (subtasks t)))) 100)))"
proof (cases "subtasks t = []")
  case True
  then show ?thesis
    using task_save_fst [of now m t d]
    by (auto simp: updateProgressFromSubtasks_eq task_pre_save_progress task_pre_save_status
        task_pre_save_subtasks)
next
  case False
  let ?t' = "t\<lparr>progress := of_int (Math_round (js_mul (fl (of_nat (completedSubtasksCount t)
                                        / of_nat (length (subtasks t)))) 100))\<rparr>"
  from False show ?thesis
    using task_save_fst [of now m ?t' d]
    by (auto simp: updateProgressFromSubtasks_eq task_pre_save_progress task_pre_save_status
        task_pre_save_subtasks)
qed


subsection \<open>Completion dates\<close>

lemma apply_event_completedAt:
  "completedAt (apply_event e t) =
     (case completedAt t of
        Some c \<Rightarrow> Some c
      | None \<Rightarrow> (case e of
           Save s m now \<Rightarrow> if m \<and> s = Completed then Some now else None
         | Update s v \<Rightarrow> None))"
  by (cases e) (simp_all add: task_pre_save_def Let_def split: option.splits)

lemma run_events_completedAt_kept:
  "completedAt t = Some c \<Longrightarrow> completedAt (run_events es t) = Some c"
  by (induction es arbitrary: t) (simp_all add: apply_event_completedAt del: apply_event.simps)

subsection \<open>The project hook and the membership methods\<close>

lemma project_pre_save_progress:
  "proj_progress (project_pre_save p) = max 0 (min 100 (proj_progress p))"
  unfolding project_pre_save_def Let_def by (auto simp: max_def min_def)

lemma project_pre_save_status:
  "proj_status (project_pre_save p) =
       (if max 0 (min 100 (proj_progress p)) = 100 \<and> proj_status p \<noteq> ProjCompleted
          then ProjCompleted
        else if max 0 (min 100 (proj_progress p)) > 0 \<and> proj_status p = Planning
          then Active
        else proj_status p)"
  unfolding project_pre_save_def Let_def by (auto simp: max_def min_def)

lemma project_pre_save_rest:
  "owner (project_pre_save p) = owner p \<and> members (project_pre_save p) = members p"
  unfolding project_pre_save_def Let_def by auto

text \<open>What \<open>addMember\<close> does reject: a user of the members list, and so a second call for the same user.\<close>

lemma addMember_present:
  "userId \<in> user ` set (members p) \<Longrightarrow> addMember now userId r p = Inl AlreadyMember"
  by (auto simp: addMember_def find_None_iff split: option.splits)

lemma addMember_again:
  assumes "addMember now1 userId r1 p = Inr p'"
  shows "addMember now2 userId r2 p' = Inl AlreadyMember"
proof -
  from assms have "members p' = members p @ [\<lparr>user = userId, role = r1, joinedAt = now1\<rparr>]"
    by (auto simp: addMember_def project_pre_save_rest split: option.splits)
  then have "userId \<in> user ` set (members p')"
    by force
  then show ?thesis
    by (rule addMember_present)
qed

text \<open>The delete handler of the tasks asks for a role; the update handler does not.\<close>

lemma delete_task_roles:
  assumes "projects d (project t) = Some p"
  shows "delete_task (Found t) d userId = Success \<longleftrightarrow>
           isMember p userId
           \<and> (creator t = userId \<or> getUserRole p userId = Some Owner
                \<or> getUserRole p userId = Some Admin)"
  using assms by (auto simp: delete_task_def Let_def)

section \<open>Who may update a task\<close>

text \<open>
  Claim C1, as the update handler decides it. Once the request is valid and the task and
  its parent project are found, the handler answers 403 exactly when the requester is
  not a member of the project; with no assignee in the body and the update accepted by
  the store, it succeeds exactly when the requester is a member. A member is the owner
  or any user of the members list, whatever the role; the task's creator plays no part.
\<close>

theorem put_task_membership:
  assumes "projects d (project t) = Some p"
  shows "(put_task True (Found t) d userId assignee stored = NotAMember
            \<longleftrightarrow> \<not> isMember p userId)
       \<and> (put_task True (Found t) d userId None True = Success \<longleftrightarrow> isMember p userId)
       \<and> (isMember p userId \<longleftrightarrow> userId = owner p \<or> userId \<in> user ` set (members p))"
  using assms
  by (auto simp: put_task_def isMember_def list_ex_iff split: option.splits)

text \<open>A viewer who did not create the task updates it.\<close>

theorem put_task_membership_witness:
  "put_task True
     (Found \<lparr>task_id = ''t1'', project = ''p1'', creator = ''u1'', status = Todo,
         progress = 0, subtasks = [], isArchived = False, completedAt = None,
         startedAt = None\<rparr>)
     \<lparr>tasks = [],
       projects = [''p1'' \<mapsto> \<lparr>owner = ''u1'',
             members = [\<lparr>user = ''u2'', role = Viewer, joinedAt = 10\<rparr>],
             proj_status = Planning, proj_progress = 0\<rparr>]\<rparr>
     ''u2'' None True = Success"
  using put_task_membership [of
     "\<lparr>tasks = [],
       projects = [''p1'' \<mapsto> \<lparr>owner = ''u1'',
             members = [\<lparr>user = ''u2'', role = Viewer, joinedAt = 10\<rparr>],
             proj_status = Planning, proj_progress = 0\<rparr>]\<rparr>"
     "\<lparr>task_id = ''t1'', project = ''p1'', creator = ''u1'', status = Todo,
         progress = 0, subtasks = [], isArchived = False, completedAt = None,
         startedAt = None\<rparr>"
     "\<lparr>owner = ''u1'',
         members = [\<lparr>user = ''u2'', role = Viewer, joinedAt = 10\<rparr>],
         proj_status = Planning, proj_progress = 0\<rparr>"
     "''u2''" None True]
  by (simp add: isMember_def)

text \<open>
  User u2 has the role member and did not create the task, and the update succeeds; user
  u3 created the task and is not a member of the project, and the update is denied.
\<close>

theorem put_task_membership_counterexample:
  "put_task True
     (Found \<lparr>task_id = ''t1'', project = ''p1'', creator = ''u3'', status = Todo,
         progress = 0, subtasks = [], isArchived = False, completedAt = None,
         startedAt = None\<rparr>)
     \<lparr>tasks = [],
       projects = [''p1'' \<mapsto> \<lparr>owner = ''u1'',
             members = [\<lparr>user = ''u2'', role = Member, joinedAt = 10\<rparr>],
             proj_status = Planning, proj_progress = 0\<rparr>]\<rparr>
     ''u2'' None True = Success
   \<and> getUserRole \<lparr>owner = ''u1'',
         members = [\<lparr>user = ''u2'', role = Member, joinedAt = 10\<rparr>],
         proj_status = Planning, proj_progress = 0\<rparr> ''u2'' = Some Member
   \<and> put_task True
     (Found \<lparr>task_id = ''t1'', project = ''p1'', creator = ''u3'', status = Todo,
         progress = 0, subtasks = [], isArchived = False, completedAt = None,
         startedAt = None\<rparr>)
     \<lparr>tasks = [],
       projects = [''p1'' \<mapsto> \<lparr>owner = ''u1'',
             members = [\<lparr>user = ''u2'', role = Member, joinedAt = 10\<rparr>],
             proj_status = Planning, proj_progress = 0\<rparr>]\<rparr>
     ''u3'' None True = NotAMember"
  by (simp add: put_task_def isMember_def getUserRole_def)

section \<open>Status and progress after a save\<close>

text \<open>
  Claim C2, as the pre-save hook enforces it. Every save returns; the saved task has the
  status it was given, progress 100 if that status is completed and progress 0 if it is
  todo, and with any other status the progress it was given. Nothing makes a task of
  progress 100 completed.
\<close>

theorem task_save_status_progress:
  "\<exists>doc d'. task_save now m t d = Some (doc, d')
      \<and> status doc = status t
      \<and> (status doc = Completed \<longrightarrow> progress doc = 100)
      \<and> (status doc = Todo \<longrightarrow> progress doc = 0)
      \<and> (status doc \<noteq> Completed \<longrightarrow> status doc \<noteq> Todo \<longrightarrow> progress doc = progress t)"
  by (simp add: task_save_eq task_pre_save_status task_pre_save_progress)

theorem task_save_status_progress_witness:
  "\<exists>doc d'. task_save 5 True
       \<lparr>task_id = ''t1'', project = ''p1'', creator = ''u1'', status = Completed,
         progress = 40, subtasks = [], isArchived = False, completedAt = None,
         startedAt = None\<rparr>
       \<lparr>tasks = [], projects = Map.empty\<rparr> = Some (doc, d')
     \<and> status doc = Completed \<and> progress doc = 100"
  using task_save_status_progress [of 5 True
       "\<lparr>task_id = ''t1'', project = ''p1'', creator = ''u1'', status = Completed,
         progress = 40, subtasks = [], isArchived = False, completedAt = None,
         startedAt = None\<rparr>"
       "\<lparr>tasks = [], projects = Map.empty\<rparr>"]
  by auto

text \<open>
  A task in progress whose only subtask is completed: the save that follows the
  recomputation leaves it in progress, with progress 100.
\<close>

theorem task_save_status_progress_counterexample:
  "map_option (\<lambda>r. (status (fst r), progress (fst r)))
     (updateProgressFromSubtasks 5 False
        \<lparr>task_id = ''t1'', project = ''p1'', creator = ''u1'', status = InProgress,
         progress = 40, subtasks = [\<lparr>title = ''a'', isCompleted = True\<rparr>], isArchived = False, completedAt = None,
         startedAt = None\<rparr>
        \<lparr>tasks = [], projects = Map.empty\<rparr>)
   = Some (InProgress, 100)"
  by (simp add: updateProgressFromSubtasks_eq task_save_eq task_pre_save_status
      task_pre_save_progress completedSubtasksCount_def js_mul_def Math_round_def)

section \<open>The project's progress after a task save\<close>

text \<open>
  Claim C3, as the post-save hook computes it. Every task save returns. The tasks that
  count are all the stored tasks whose project is the project of the saved task,
  archived or not, the saved task among them; no other project changes. If that project
  is stored, its progress becomes \<open>Math.round\<close> of the binary64 quotient of the
  binary64 sum, taken from left to right, of their progress by their number. When
  every one of these progress values is an integer from 0 to 100 and there are fewer
  than \<open>2 ^ 32\<close> of them, that is the arithmetic mean rounded to the nearest integer, a
  tie upwards. The hook run for a project with no stored task leaves the store as it
  is. The witness is the scenario of two tasks at 40 and 60, beside a task of another
  project, which gives 50.
\<close>

theorem task_save_project_progress:
  "\<exists>doc d'. task_save now m t d = Some (doc, d')
      \<and> doc = task_pre_save now m t
      \<and> tasks d' = store_task doc (tasks d)
      \<and> filter (\<lambda>x. project x = project t) (tasks d') \<noteq> []
      \<and> (\<forall>q. q \<noteq> project t \<longrightarrow> projects d' q = projects d q)
      \<and> (projects d (project t) = None \<longrightarrow> projects d' (project t) = None)
      \<and> (\<forall>p. projects d (project t) = Some p \<longrightarrow>
            projects d' (project t) =
              Some (p\<lparr>proj_progress :=
                of_int (Math_round (fl
                  (foldl (\<lambda>sum task. js_add sum (progress task)) 0
                     (filter (\<lambda>x. project x = project t) (tasks d'))
                   / of_nat (length (filter (\<lambda>x. project x = project t) (tasks d'))))))\<rparr>))
      \<and> (\<forall>p. projects d (project t) = Some p \<longrightarrow>
            (\<forall>x\<in>set (filter (\<lambda>x. project x = project t) (tasks d')).
               \<exists>k. progress x = of_int k \<and> 0 \<le> k \<and> k \<le> 100) \<longrightarrow>
            length (filter (\<lambda>x. project x = project t) (tasks d')) < 2 ^ 32 \<longrightarrow>
            projects d' (project t) =
              Some (p\<lparr>proj_progress :=
                of_int (round
                  (sum_list (map progress (filter (\<lambda>x. project x = project t) (tasks d')))
                   / of_nat (length (filter (\<lambda>x. project x = project t) (tasks d')))))\<rparr>))
      \<and> (filter (\<lambda>x. project x = project t) (tasks d) = [] \<longrightarrow> task_post_save t d = Some d)"
proof -
  define doc where "doc = task_pre_save now m t"
  define ts where "ts = filter (\<lambda>x. project x = project t) (store_task doc (tasks d))"
  define v :: rat where "v = of_int (Math_round (fl
              (foldl (\<lambda>sum task. js_add sum (progress task)) 0 ts / of_nat (length ts))))"
  define d' where
    "d' = findByIdAndUpdate_progress (project t) v (d\<lparr>tasks := store_task doc (tasks d)\<rparr>)"
  have c1: "task_save now m t d = Some (doc, d')"
    by (simp add: task_save_eq d'_def v_def ts_def doc_def)
  have c2: "doc = task_pre_save now m t"
    by (rule doc_def)
  have c3: "tasks d' = store_task doc (tasks d)"
    by (simp add: d'_def findByIdAndUpdate_progress_def split: option.splits)
  have fts: "filter (\<lambda>x. project x = project t) (tasks d') = ts"
    by (simp add: c3 ts_def)
  have ne: "ts \<noteq> []"
    using stored_of_project [of doc "tasks d"]
    by (simp add: ts_def doc_def task_pre_save_project)
  have c4: "filter (\<lambda>x. project x = project t) (tasks d') \<noteq> []"
    by (simp only: fts ne not_False_eq_True)
  have c5: "\<forall>q. q \<noteq> project t \<longrightarrow> projects d' q = projects d q"
    by (simp add: d'_def findByIdAndUpdate_progress_def split: option.splits)
  have c6: "projects d (project t) = None \<longrightarrow> projects d' (project t) = None"
    by (simp add: d'_def findByIdAndUpdate_progress_def)
  have some: "\<forall>p. projects d (project t) = Some p \<longrightarrow>
      projects d' (project t) = Some (p\<lparr>proj_progress := v\<rparr>)"
    by (simp add: d'_def findByIdAndUpdate_progress_def)
  have c7: "\<forall>p. projects d (project t) = Some p \<longrightarrow>
            projects d' (project t) =
              Some (p\<lparr>proj_progress :=
                of_int (Math_round (fl
                  (foldl (\<lambda>sum task. js_add sum (progress task)) 0
                     (filter (\<lambda>x. project x = project t) (tasks d'))
                   / of_nat (length (filter (\<lambda>x. project x = project t) (tasks d'))))))\<rparr>)"
    using some by (simp only: fts v_def)
  have c8: "\<forall>p. projects d (project t) = Some p \<longrightarrow>
            (\<forall>x\<in>set (filter (\<lambda>x. project x = project t) (tasks d')).
               \<exists>k. progress x = of_int k \<and> 0 \<le> k \<and> k \<le> 100) \<longrightarrow>
            length (filter (\<lambda>x. project x = project t) (tasks d')) < 2 ^ 32 \<longrightarrow>
            projects d' (project t) =
              Some (p\<lparr>proj_progress :=
                of_int (round
                  (sum_list (map progress (filter (\<lambda>x. project x = project t) (tasks d')))
                   / of_nat (length (filter (\<lambda>x. project x = project t) (tasks d')))))\<rparr>)"
  proof (intro allI impI)
    fix p
    assume p: "projects d (project t) = Some p"
      and ints: "\<forall>x\<in>set (filter (\<lambda>x. project x = project t) (tasks d')).
               \<exists>k. progress x = of_int k \<and> 0 \<le> k \<and> k \<le> 100"
      and len: "length (filter (\<lambda>x. project x = project t) (tasks d')) < 2 ^ 32"
    have "v = of_int (round (sum_list (map progress ts) / of_nat (length ts)))"
      unfolding v_def using mean_round [OF ints [unfolded fts] ne len [unfolded fts]] by simp
    with some p show "projects d' (project t) =
              Some (p\<lparr>proj_progress :=
                of_int (round
                  (sum_list (map progress (filter (\<lambda>x. project x = project t) (tasks d')))
                   / of_nat (length (filter (\<lambda>x. project x = project t) (tasks d')))))\<rparr>)"
      by (simp only: fts)
  qed
  have c9: "filter (\<lambda>x. project x = project t) (tasks d) = [] \<longrightarrow> task_post_save t d = Some d"
    by (simp add: task_post_save_eq)
  show ?thesis
    apply (rule exI [of _ doc])
    apply (rule exI [of _ d'])
    apply (intro conjI)
            apply (fact c1)
           apply (fact c2)
          apply (fact c3)
         apply (fact c4)
        apply (fact c5)
       apply (fact c6)
      apply (fact c7)
     apply (fact c8)
    apply (fact c9)
    done
qed

theorem task_save_project_progress_witness:
  "\<exists>doc d'. task_save 9 False
       \<lparr>task_id = ''t2'', project = ''p1'', creator = ''u1'', status = InProgress,
         progress = 60, subtasks = [], isArchived = False, completedAt = None,
         startedAt = None\<rparr>
       \<lparr>tasks = [\<lparr>task_id = ''t1'', project = ''p1'', creator = ''u1'', status = InReview,
         progress = 40, subtasks = [], isArchived = False, completedAt = None,
         startedAt = None\<rparr>,
                 \<lparr>task_id = ''t3'', project = ''p2'', creator = ''u1'', status = InReview,
         progress = 90, subtasks = [], isArchived = False, completedAt = None,
         startedAt = None\<rparr>],
        projects = [''p1'' \<mapsto> \<lparr>owner = ''u1'', members = [], proj_status = Active, proj_progress = 0\<rparr>]\<rparr> = Some (doc, d')
     \<and> projects d' ''p1''
         = Some \<lparr>owner = ''u1'', members = [], proj_status = Active, proj_progress = 50\<rparr>"
proof -
  let ?t = "\<lparr>task_id = ''t2'', project = ''p1'', creator = ''u1'', status = InProgress,
         progress = 60, subtasks = [], isArchived = False, completedAt = None,
         startedAt = None\<rparr>"
  let ?d = "\<lparr>tasks = [\<lparr>task_id = ''t1'', project = ''p1'', creator = ''u1'', status = InReview,
         progress = 40, subtasks = [], isArchived = False, completedAt = None,
         startedAt = None\<rparr>,
                 \<lparr>task_id = ''t3'', project = ''p2'', creator = ''u1'', status = InReview,
         progress = 90, subtasks = [], isArchived = False, completedAt = None,
         startedAt = None\<rparr>],
        projects = [''p1'' \<mapsto> \<lparr>owner = ''u1'', members = [], proj_status = Active, proj_progress = 0\<rparr>]\<rparr>"
  obtain doc d' where
    s: "task_save 9 False ?t ?d = Some (doc, d')" and
    doc: "doc = task_pre_save 9 False ?t" and
    ts: "tasks d' = store_task doc (tasks ?d)" and
    pr: "\<forall>p. projects ?d (project ?t) = Some p \<longrightarrow>
            (\<forall>x\<in>set (filter (\<lambda>x. project x = project ?t) (tasks d')).
               \<exists>k. progress x = of_int k \<and> 0 \<le> k \<and> k \<le> 100) \<longrightarrow>
            length (filter (\<lambda>x. project x = project ?t) (tasks d')) < 2 ^ 32 \<longrightarrow>
            projects d' (project ?t) =
              Some (p\<lparr>proj_progress :=
                of_int (round
                  (sum_list (map progress (filter (\<lambda>x. project x = project ?t) (tasks d')))
                   / of_nat (length (filter (\<lambda>x. project x = project ?t) (tasks d')))))\<rparr>)"
    using task_save_project_progress [of 9 False ?t ?d] by blast
  have doc': "doc = ?t"
    by (simp add: doc task_pre_save_def)
  have f: "filter (\<lambda>x. project x = project ?t) (tasks d') =
      [\<lparr>task_id = ''t1'', project = ''p1'', creator = ''u1'', status = InReview,
         progress = 40, subtasks = [], isArchived = False, completedAt = None,
         startedAt = None\<rparr>, ?t]"
    by (simp add: ts doc')
  have i40: "\<exists>k. (40::rat) = of_int k \<and> 0 \<le> k \<and> k \<le> 100"
    by (rule exI [of _ 40]) simp
  have i60: "\<exists>k. (60::rat) = of_int k \<and> 0 \<le> k \<and> k \<le> 100"
    by (rule exI [of _ 60]) simp
  have "projects d' (project ?t) =
      Some (\<lparr>owner = ''u1'', members = [], proj_status = Active, proj_progress = 0\<rparr>
        \<lparr>proj_progress :=
          of_int (round
            (sum_list (map progress (filter (\<lambda>x. project x = project ?t) (tasks d')))
             / of_nat (length (filter (\<lambda>x. project x = project ?t) (tasks d')))))\<rparr>)"
  proof (rule pr [THEN spec, THEN mp, THEN mp, THEN mp])
    show "projects ?d (project ?t)
        = Some \<lparr>owner = ''u1'', members = [], proj_status = Active, proj_progress = 0\<rparr>"
      by simp
    show "\<forall>x\<in>set (filter (\<lambda>x. project x = project ?t) (tasks d')).
        \<exists>k. progress x = of_int k \<and> 0 \<le> k \<and> k \<le> 100"
      unfolding f using i40 i60 by simp
    show "length (filter (\<lambda>x. project x = project ?t) (tasks d')) < 2 ^ 32"
      unfolding f by simp
  qed
  then have "projects d' ''p1''
         = Some \<lparr>owner = ''u1'', members = [], proj_status = Active, proj_progress = 50\<rparr>"
    unfolding f by (simp add: round_def)
  with s show ?thesis by blast
qed

text \<open>
  Two tasks in progress whose progress values are binary64 numbers with the exact sum
  \<open>1 - 2 powi (- 54) + 2 powi (- 60)\<close>: the sum rounds to 1, so the code stores 1, and
  the mean rounded to the nearest integer is 0.
\<close>

theorem task_save_project_progress_counterexample:
  "map_option (\<lambda>r. map_option proj_progress (projects (snd r) ''p1''))
     (task_save 9 False
       \<lparr>task_id = ''t2'', project = ''p1'', creator = ''u1'', status = InProgress,
         progress = 65 / 1152921504606846976, subtasks = [], isArchived = False, completedAt = None,
         startedAt = None\<rparr>
       \<lparr>tasks = [\<lparr>task_id = ''t1'', project = ''p1'', creator = ''u1'', status = InProgress,
         progress = 9007199254740991 / 9007199254740992, subtasks = [], isArchived = False, completedAt = None,
         startedAt = None\<rparr>,
                 \<lparr>task_id = ''t2'', project = ''p1'', creator = ''u1'', status = InProgress,
         progress = 65 / 1152921504606846976, subtasks = [], isArchived = False, completedAt = None,
         startedAt = None\<rparr>],
        projects = [''p1'' \<mapsto> \<lparr>owner = ''u1'', members = [], proj_status = Active, proj_progress = 0\<rparr>]\<rparr>)
   = Some (Some 1)
   \<and> round ((9007199254740991 / 9007199254740992 + 65 / 1152921504606846976) / 2 :: rat) = 0"
proof -
  have "round ((9007199254740991 / 9007199254740992 + 65 / 1152921504606846976) / 2 :: rat) = 0"
    by code_simp
  then show ?thesis
    by (simp add: task_save_eq task_pre_save_def findByIdAndUpdate_progress_def
        double_sum_rounds_up js_div_def half_is_double Math_round_def)
qed

section \<open>The completion date\<close>

text \<open>
  Claim C4. While a task has no completion date, a save in which the status was modified
  and is completed assigns the time of that save, and no other save and no update
  assigns any; once the task has a completion date, no sequence of saves and updates,
  whatever statuses they assign, clears or replaces it.
\<close>

theorem completedAt_assigned_once:
  "(completedAt t = None \<longrightarrow>
       completedAt (apply_event (Save Completed True now) t) = Some now)
   \<and> (completedAt t = None \<longrightarrow> \<not> (m \<and> s = Completed) \<longrightarrow>
       completedAt (apply_event (Save s m now) t) = None)
   \<and> (completedAt t = None \<longrightarrow> completedAt (apply_event (Update s' v) t) = None)
   \<and> (completedAt t = Some c \<longrightarrow> completedAt (run_events es t) = Some c)"
  using run_events_completedAt_kept [of t c es]
  by (simp add: apply_event_completedAt del: apply_event.simps)

theorem completedAt_assigned_once_witness:
  "completedAt (apply_event (Save Completed True 1000)
       \<lparr>task_id = ''t1'', project = ''p1'', creator = ''u1'', status = InProgress,
         progress = 40, subtasks = [], isArchived = False, completedAt = None,
         startedAt = Some 500\<rparr>) = Some 1000
   \<and> completedAt (apply_event (Save InReview True 1000)
       \<lparr>task_id = ''t1'', project = ''p1'', creator = ''u1'', status = InProgress,
         progress = 40, subtasks = [], isArchived = False, completedAt = None,
         startedAt = Some 500\<rparr>) = None
   \<and> completedAt (run_events
         [Save InProgress True 2000, Update (Some Todo) None, Save Completed True 3000]
       \<lparr>task_id = ''t1'', project = ''p1'', creator = ''u1'', status = Completed,
         progress = 100, subtasks = [], isArchived = False, completedAt = Some 1000,
         startedAt = Some 500\<rparr>) = Some 1000"
  using completedAt_assigned_once [of
       "\<lparr>task_id = ''t1'', project = ''p1'', creator = ''u1'', status = InProgress,
         progress = 40, subtasks = [], isArchived = False, completedAt = None,
         startedAt = Some 500\<rparr>" 1000 True InReview None None 0 "[]"]
    completedAt_assigned_once [of
       "\<lparr>task_id = ''t1'', project = ''p1'', creator = ''u1'', status = Completed,
         progress = 100, subtasks = [], isArchived = False, completedAt = Some 1000,
         startedAt = Some 500\<rparr>" 0 False Todo None None 1000
       "[Save InProgress True 2000, Update (Some Todo) None, Save Completed True 3000]"]
  by simp

section \<open>Adding a member\<close>

text \<open>
  Claim C5, at the input where the code departs from it. The owner of a project with an
  empty members list is a member by \<open>isMember\<close>, and \<open>addMember\<close> for the owner throws
  nothing: it appends the owner to the members list and saves.
\<close>

theorem addMember_owner_accepted:
  "addMember 20 ''u1'' Member
     \<lparr>owner = ''u1'', members = [], proj_status = Planning, proj_progress = 0\<rparr>
   = Inr \<lparr>owner = ''u1'',
          members = [\<lparr>user = ''u1'', role = Member, joinedAt = 20\<rparr>],
          proj_status = Planning, proj_progress = 0\<rparr>
   \<and> isMember \<lparr>owner = ''u1'', members = [], proj_status = Planning, proj_progress = 0\<rparr>
        ''u1''"
  by (simp add: addMember_def isMember_def project_pre_save_def)

section \<open>Removing the owner\<close>

text \<open>
  Claim C6, as the member-removal handler decides it. A request to remove the owner of a
  found project always fails and leaves the project as it was. It is answered 403 when
  the requester is not the owner and has neither the role owner nor the role admin,
  and 400, the owner cannot be removed, otherwise.
\<close>

theorem delete_member_owner:
  assumes "owner p = target"
  shows "delete_member (Found p) userId target =
           (if userId \<noteq> target \<and> getUserRole p userId \<noteq> Some Owner
                \<and> getUserRole p userId \<noteq> Some Admin
            then RoleDenied else CannotRemoveOwner, Some p)"
  using assms
  by (auto simp: delete_member_def Let_def)

theorem delete_member_owner_witness:
  "delete_member
     (Found \<lparr>owner = ''u1'',
             members = [\<lparr>user = ''u2'', role = Admin, joinedAt = 10\<rparr>],
             proj_status = Active, proj_progress = 30\<rparr>) ''u2'' ''u1''
   = (CannotRemoveOwner,
      Some \<lparr>owner = ''u1'',
             members = [\<lparr>user = ''u2'', role = Admin, joinedAt = 10\<rparr>],
             proj_status = Active, proj_progress = 30\<rparr>)"
  using delete_member_owner [of
      "\<lparr>owner = ''u1'',
             members = [\<lparr>user = ''u2'', role = Admin, joinedAt = 10\<rparr>],
             proj_status = Active, proj_progress = 30\<rparr>" "''u1''" "''u2''"]
  by (simp add: getUserRole_def)

text \<open>User u2, of role member, asks to remove the owner u1: the answer is the 403, not the 400.\<close>

theorem delete_member_owner_counterexample:
  "delete_member
     (Found \<lparr>owner = ''u1'',
             members = [\<lparr>user = ''u2'', role = Member, joinedAt = 10\<rparr>],
             proj_status = Active, proj_progress = 30\<rparr>) ''u2'' ''u1''
   = (RoleDenied,
      Some \<lparr>owner = ''u1'',
             members = [\<lparr>user = ''u2'', role = Member, joinedAt = 10\<rparr>],
             proj_status = Active, proj_progress = 30\<rparr>)
   \<and> status_code RoleDenied = 403 \<and> status_code CannotRemoveOwner = 400"
  by (simp add: delete_member_def getUserRole_def)

section \<open>Progress from the subtasks\<close>




text \<open>
  Claim C8. The recomputation applied to a task and then to the task it returned, with
  no change of the subtasks in between, returns both times, and the second call gives
  the progress the first one gave.
\<close>

theorem updateProgressFromSubtasks_idempotent:
  "\<exists>t1 d1 t2 d2.
      updateProgressFromSubtasks now1 m1 t d = Some (t1, d1)
    \<and> updateProgressFromSubtasks now2 m2 t1 d1 = Some (t2, d2)
    \<and> progress t2 = progress t1"
proof -
  obtain t1 d1 where
    r1: "updateProgressFromSubtasks now1 m1 t d = Some (t1, d1)" and
    s1: "status t1 = status t" and u1: "subtasks t1 = subtasks t" and
    p1: "progress t1 =
          (if status t = Completed then 100
           else if status t = Todo then 0
           else if subtasks t = [] then progress t
           else of_int (Math_round (js_mul (fl (of_nat (completedSubtasksCount t)
                                        / of_nat (length (subtasks t)))) 100)))"
    using updateProgressFromSubtasks_doc [of now1 m1 t d] by blast
  obtain t2 d2 where
    r2: "updateProgressFromSubtasks now2 m2 t1 d1 = Some (t2, d2)" and
    p2: "progress t2 =
          (if status t1 = Completed then 100
           else if status t1 = Todo then 0
           else if subtasks t1 = [] then progress t1
           else of_int (Math_round (js_mul (fl (of_nat (completedSubtasksCount t1)
                                        / of_nat (length (subtasks t1)))) 100)))"
    using updateProgressFromSubtasks_doc [of now2 m2 t1 d1] by blast
  have c: "completedSubtasksCount t1 = completedSubtasksCount t"
    by (simp add: completedSubtasksCount_def u1)
  have "progress t2 = progress t1"
    by (simp add: p1 p2 s1 u1 c)
  with r1 r2 show ?thesis by blast
qed

section \<open>Dashboard metrics: zero totals and productivity\<close>

text \<open>
  Claim C9. With a total of zero tasks the completion rate and the overdue rate are both
  0, and the quotient by the total is never taken with a zero divisor: the metrics are
  always finite numbers. The productivity is the larger of 0 and the difference
  of the two rates, so it is never negative.
\<close>

theorem stats_metrics_safe:
  "(\<exists>m. stats_metrics totalTasks completedTasks overdueTasks = Some m
       \<and> productivity m = max 0 (completionRate m - overdueRate m)
       \<and> 0 \<le> productivity m)
   \<and> (totalTasks = 0 \<longrightarrow>
        stats_metrics totalTasks completedTasks overdueTasks
          = Some \<lparr>completionRate = 0, overdueRate = 0, productivity = 0\<rparr>)"
  by (simp add: stats_metrics_def js_div_def)

theorem stats_metrics_safe_witness:
  "stats_metrics 0 3 2 = Some \<lparr>completionRate = 0, overdueRate = 0, productivity = 0\<rparr>"
  using stats_metrics_safe [of 0 3 2] by simp

section \<open>The project's status on a save\<close>

text \<open>
  Claim C10, as the two hooks have it. A project save first brings the progress into the
  range from 0 to 100; then, on the progress so clamped, the status becomes completed
  if the progress is 100 and the status is not completed, and otherwise active if the
  progress is above 0 and the status is planning, and otherwise stays; owner and
  members stay. The progress recomputation of a task save is no project save: it
  always returns and leaves the status of every project as it was.
\<close>

theorem project_pre_save_clamp_promote:
  "proj_progress (project_pre_save p) = max 0 (min 100 (proj_progress p))
   \<and> proj_status (project_pre_save p) =
       (if proj_progress (project_pre_save p) = 100 \<and> proj_status p \<noteq> ProjCompleted
          then ProjCompleted
        else if proj_progress (project_pre_save p) > 0 \<and> proj_status p = Planning
          then Active
        else proj_status p)
   \<and> owner (project_pre_save p) = owner p
   \<and> members (project_pre_save p) = members p
   \<and> (\<exists>doc d'. task_save now m t d = Some (doc, d')
         \<and> (\<forall>q. map_option proj_status (projects d' q) = map_option proj_status (projects d q)))"
proof -
  obtain d' where s: "task_save now m t d = Some (task_pre_save now m t, d')"
    using task_save_fst [of now m t d] by blast
  have "\<forall>q. map_option proj_status (projects d' q) = map_option proj_status (projects d q)"
    using task_save_keeps_project_status [OF s] by simp
  with s have "\<exists>doc d'. task_save now m t d = Some (doc, d')
         \<and> (\<forall>q. map_option proj_status (projects d' q) = map_option proj_status (projects d q))"
    by blast
  then show ?thesis
    using project_pre_save_progress [of p] project_pre_save_status [of p]
      project_pre_save_rest [of p]
    by presburger
qed

theorem project_pre_save_clamp_promote_witness:
  "project_pre_save
     \<lparr>owner = ''u1'', members = [], proj_status = Planning, proj_progress = 50\<rparr>
   = \<lparr>owner = ''u1'', members = [], proj_status = Active, proj_progress = 50\<rparr>"
proof -
  let ?p = "\<lparr>owner = ''u1'', members = [], proj_status = Planning, proj_progress = 50\<rparr>"
  note hook = project_pre_save_clamp_promote [of ?p 0 False
     "\<lparr>task_id = ''t1'', project = ''p1'', creator = ''u1'', status = Completed,
         progress = 100, subtasks = [], isArchived = False, completedAt = None,
         startedAt = None\<rparr>"
     "\<lparr>tasks = [], projects = Map.empty\<rparr>"]
  have a: "proj_progress (project_pre_save ?p) = 50"
    using hook [THEN conjunct1] by simp
  have b: "proj_status (project_pre_save ?p) = Active"
    using hook [THEN conjunct2, THEN conjunct1] a by simp
  have c: "owner (project_pre_save ?p) = ''u1''"
    using hook [THEN conjunct2, THEN conjunct2, THEN conjunct1] by simp
  have d: "members (project_pre_save ?p) = []"
    using hook [THEN conjunct2, THEN conjunct2, THEN conjunct2, THEN conjunct1] by simp
  show ?thesis
    using a b c d by (cases "project_pre_save ?p") simp
qed

text \<open>
  A completed task is saved into a project in planning: the recomputation stores the
  progress 100 and the project is still in planning, where a save of the project would
  make it completed.
\<close>

theorem project_pre_save_clamp_promote_counterexample:
  "map_option (\<lambda>r. projects (snd r) ''p1'')
     (task_save 7 True
       \<lparr>task_id = ''t1'', project = ''p1'', creator = ''u1'', status = Completed,
         progress = 100, subtasks = [], isArchived = False, completedAt = None,
         startedAt = None\<rparr>
       \<lparr>tasks = [], projects = [''p1'' \<mapsto> \<lparr>owner = ''u1'', members = [], proj_status = Planning, proj_progress = 0\<rparr>]\<rparr>)
   = Some (Some \<lparr>owner = ''u1'', members = [], proj_status = Planning, proj_progress = 100\<rparr>)
   \<and> proj_status (project_pre_save
        \<lparr>owner = ''u1'', members = [], proj_status = Planning, proj_progress = 100\<rparr>)
     = ProjCompleted"
  by (simp add: task_save_eq task_pre_save_def findByIdAndUpdate_progress_def js_add_def
      Math_round_def project_pre_save_def)

end
